theory Spec2Isabelle
  imports Complex_Main "HOL-Library.AList"
begin

section \<open>Data model\<close>

text \<open>
  Python floats are modelled as reals (rounding, NaN and infinities are outside the
  model). A \<^verbatim>\<open>datetime\<close> is the instant it denotes, counted in microseconds since the
  epoch, which is the resolution of Python's \<^verbatim>\<open>datetime\<close> and \<^verbatim>\<open>timedelta\<close>. Every
  function that calls \<^verbatim>\<open>datetime.now(timezone.utc)\<close> takes the value it reads as the
  parameter \<open>now\<close>. Logging is not modelled.
\<close>

type_synonym datetime = int

text \<open>
  \<^verbatim>\<open>int(delta.total_seconds())\<close> and \<^verbatim>\<open>int(dt.timestamp())\<close>: whole seconds of a number
  of microseconds, truncated towards zero as Python's \<^verbatim>\<open>int\<close> truncates a float.
\<close>

definition int_seconds :: "int \<Rightarrow> int" where
  "int_seconds us = (if 0 \<le> us then us div 1000000 else - ((- us) div 1000000))"

text \<open>
  The result of \<^verbatim>\<open>datetime.fromisoformat\<close> on a string: it raises ValueError
  (\<open>Malformed\<close>), or returns a datetime without UTC offset (\<open>Naive\<close>, carrying the
  instant it denotes in local time) or with one (\<open>Aware\<close>).
\<close>

datatype iso_parse = Malformed | Naive datetime | Aware datetime

datatype error = ValueError | TypeError

text \<open>twc.py, class Vitals (a dataclass; the defaults are \<open>Vitals_init\<close>).\<close>

record Vitals =
  contactor_closed :: bool
  vehicle_connected :: bool
  session_s :: int
  grid_v :: real
  grid_hz :: real
  vehicle_current_a :: real
  currentA_a :: real
  currentB_a :: real
  currentC_a :: real
  currentN_a :: real
  voltageA_v :: real
  voltageB_v :: real
  voltageC_v :: real
  relay_coil_v :: real
  pcba_temp_c :: real
  handle_temp_c :: real
  mcu_temp_c :: real
  uptime_s :: int
  input_thermopile_uv :: real
  prox_v :: real
  pilot_high_v :: real
  pilot_low_v :: real
  session_energy_wh :: real
  total_energy_wh :: real
  config_status :: int
  evse_state :: int
  current_alerts :: "string list"

definition Vitals_init :: Vitals where
  "Vitals_init =
     \<lparr> contactor_closed = False, vehicle_connected = False, session_s = 0,
       grid_v = 0, grid_hz = 0, vehicle_current_a = 0,
       currentA_a = 0, currentB_a = 0, currentC_a = 0, currentN_a = 0,
       voltageA_v = 0, voltageB_v = 0, voltageC_v = 0,
       relay_coil_v = 0, pcba_temp_c = 0, handle_temp_c = 0, mcu_temp_c = 0,
       uptime_s = 0, input_thermopile_uv = 0, prox_v = 0,
       pilot_high_v = 0, pilot_low_v = 0,
       session_energy_wh = 0, total_energy_wh = 0,
       config_status = 0, evse_state = 0, current_alerts = [] \<rparr>"

text \<open>
  twc.py, class TWCSimulator. The attribute \<^verbatim>\<open>start_time\<close> is the field
  \<open>twc_start_time\<close> here (class ChargingSession has a \<^verbatim>\<open>start_time\<close> of its own);
  \<open>last_seen\<close> is \<^verbatim>\<open>now.timestamp()\<close>, kept in microseconds.
\<close>

record TWCSimulator =
  vitals :: Vitals
  max_power :: int
  twc_start_time :: datetime
  charging_start_time :: "datetime option"
  ocpp_connected :: bool
  last_seen :: datetime

definition TWCSimulator_init :: "datetime \<Rightarrow> TWCSimulator" where
  "TWCSimulator_init now =
     \<lparr> vitals = Vitals_init, max_power = 11000, twc_start_time = now,
       charging_start_time = None, ocpp_connected = False, last_seen = now \<rparr>"

section \<open>EVSE state machine (twc.py)\<close>

text \<open>
  \<^verbatim>\<open>set_enabled\<close> returns its result and the simulator after the call. A datetime is
  always true in Python, so \<^verbatim>\<open>not self.charging_start_time\<close> holds exactly for None.
\<close>

definition set_enabled :: "bool \<Rightarrow> datetime \<Rightarrow> TWCSimulator \<Rightarrow> bool \<times> TWCSimulator" where
  "set_enabled enabled now s =
     (if enabled then
        (if evse_state (vitals s) = 4 then (False, s)
         else if vehicle_connected (vitals s) then
           (True, s\<lparr> vitals := (vitals s)\<lparr> evse_state := 3, contactor_closed := True \<rparr>,
                     charging_start_time :=
                       (case charging_start_time s of None \<Rightarrow> Some now | Some t \<Rightarrow> Some t) \<rparr>)
         else (True, s\<lparr> vitals := (vitals s)\<lparr> evse_state := 2 \<rparr> \<rparr>))
      else
        (True, s\<lparr> vitals := (vitals s)\<lparr> evse_state := 1, contactor_closed := False \<rparr>,
                  charging_start_time := None \<rparr>))"

definition set_vehicle_connected :: "bool \<Rightarrow> datetime \<Rightarrow> TWCSimulator \<Rightarrow> bool \<times> TWCSimulator" where
  "set_vehicle_connected conn now s =
     (let s1 = s\<lparr> vitals := (vitals s)\<lparr> vehicle_connected := conn \<rparr> \<rparr> in
      if \<not> conn then
        (let s2 = s1\<lparr> vitals := (vitals s1)\<lparr> contactor_closed := False \<rparr>,
                       charging_start_time := None \<rparr> in
         if evse_state (vitals s2) \<noteq> 1 \<and> evse_state (vitals s2) \<noteq> 4
         then (True, s2\<lparr> vitals := (vitals s2)\<lparr> evse_state := 2 \<rparr> \<rparr>)
         else (True, s2))
      else if evse_state (vitals s1) = 2 then
        (True, s1\<lparr> vitals := (vitals s1)\<lparr> evse_state := 3, contactor_closed := True \<rparr>,
                   charging_start_time :=
                     (case charging_start_time s1 of None \<Rightarrow> Some now | Some t \<Rightarrow> Some t) \<rparr>)
      else (True, s1))"

definition set_error :: "bool \<Rightarrow> datetime \<Rightarrow> TWCSimulator \<Rightarrow> TWCSimulator" where
  "set_error has_error now s =
     (if has_error then
        s\<lparr> vitals := (vitals s)\<lparr> evse_state := 4, contactor_closed := False \<rparr>,
           charging_start_time := None \<rparr>
      else
        snd (set_enabled True now (s\<lparr> vitals := (vitals s)\<lparr> evse_state := 1 \<rparr> \<rparr>)))"

definition set_ocpp_connected :: "bool \<Rightarrow> datetime \<Rightarrow> TWCSimulator \<Rightarrow> TWCSimulator" where
  "set_ocpp_connected conn now s =
     (let s1 = s\<lparr> ocpp_connected := conn \<rparr> in
      if conn then s1\<lparr> last_seen := now \<rparr>
      else s1\<lparr> vitals := (vitals s1)\<lparr> evse_state := 0, contactor_closed := False \<rparr>,
               charging_start_time := None \<rparr>)"

section \<open>Telemetry into the snapshot (twc.py)\<close>

text \<open>
  A Python dict is an association list with one entry per key, in insertion order:
  \<^verbatim>\<open>d[k] = v\<close> is \<open>AList.update k v d\<close> and \<^verbatim>\<open>d.get(k, dflt)\<close> is \<open>dict_get d k dflt\<close>.
\<close>

definition dict_get :: "(string \<times> 'a) list \<Rightarrow> string \<Rightarrow> 'a \<Rightarrow> 'a" where
  "dict_get d k dflt = (case map_of d k of None \<Rightarrow> dflt | Some v \<Rightarrow> v)"

text \<open>
  The session-time step of \<^verbatim>\<open>update_from_client\<close> (lines 159 to 167). The argument
  \<open>ts\<close> is the \<^verbatim>\<open>timestamp\<close> parameter: None for None or the empty string (both false in
  Python), otherwise what \<^verbatim>\<open>datetime.fromisoformat\<close> makes of it. The charge-start
  time carries a UTC offset, so subtracting it from a datetime without one raises
  TypeError, which the \<^verbatim>\<open>except ValueError\<close> does not catch.
\<close>

definition session_time :: "datetime option \<Rightarrow> iso_parse option \<Rightarrow> datetime \<Rightarrow> int \<Rightarrow> error + int" where
  "session_time start ts now old =
     (case start of
        None \<Rightarrow> Inr 0
      | Some st \<Rightarrow>
          (case ts of
             None \<Rightarrow> Inr old
           | Some Malformed \<Rightarrow> Inr (int_seconds (now - st))
           | Some (Naive t) \<Rightarrow> Inl TypeError
           | Some (Aware t) \<Rightarrow> Inr (int_seconds (t - st))))"

text \<open>
  \<^verbatim>\<open>update_from_client\<close> returns what the call returns or raises, and the simulator as
  the call leaves it: the fields written before a raise stay written.
\<close>

definition update_from_client ::
  "real \<Rightarrow> (string \<times> real) list \<Rightarrow> (string \<times> real) list \<Rightarrow> real \<Rightarrow> real \<Rightarrow> real \<Rightarrow> real
   \<Rightarrow> iso_parse option \<Rightarrow> datetime \<Rightarrow> TWCSimulator \<Rightarrow> (error + bool) \<times> TWCSimulator" where
  "update_from_client power_arg currents voltages frequency session_energy total_energy
       pcba_temp ts now s =
     (let v1 = (vitals s)\<lparr> currentA_a := dict_get currents ''L1'' 0,
                            currentB_a := dict_get currents ''L2'' 0,
                            currentC_a := dict_get currents ''L3'' 0,
                            currentN_a := dict_get currents ''N'' 0 \<rparr>;
          v2 = v1\<lparr> vehicle_current_a :=
                      sum_list (filter (\<lambda>c. 0 < c) [currentA_a v1, currentB_a v1, currentC_a v1]) \<rparr>;
          v3 = v2\<lparr> voltageA_v := dict_get voltages ''L1'' 230,
                    voltageB_v := dict_get voltages ''L2'' 230,
                    voltageC_v := dict_get voltages ''L3'' 230 \<rparr>;
          active_voltages = filter (\<lambda>v. 2 < v) [voltageA_v v3, voltageB_v v3, voltageC_v v3];
          v4 = v3\<lparr> grid_v := (if active_voltages \<noteq> []
                               then sum_list active_voltages / real (length active_voltages)
                               else 230),
                    grid_hz := frequency \<rparr>;
          v5 = v4\<lparr> session_energy_wh := session_energy, total_energy_wh := total_energy \<rparr>
      in case session_time (charging_start_time s) ts now (session_s v5) of
           Inl e \<Rightarrow> (Inl e, s\<lparr> vitals := v5 \<rparr>)
         | Inr secs \<Rightarrow>
             (let v6 = v5\<lparr> session_s := secs \<rparr>;
                  v7 = v6\<lparr> pilot_high_v := (if evse_state v6 = 2 \<or> evse_state v6 = 3 then 12 else 0),
                            pilot_low_v := (if evse_state v6 = 2 \<or> evse_state v6 = 3 then 12 else 0),
                            relay_coil_v := (if contactor_closed v6 then 12 else 0) \<rparr>;
                  v8 = v7\<lparr> uptime_s := int_seconds (now - twc_start_time s) \<rparr>;
                  v9 = v8\<lparr> pcba_temp_c := pcba_temp, handle_temp_c := 20, mcu_temp_c := 20 \<rparr>
              in (Inr True, s\<lparr> vitals := v9 \<rparr>)))"

section \<open>Protocol bridge (server.py)\<close>

record ChargingSession =
  id_tag :: string
  transaction_id :: int
  meter_start :: int
  start_time :: datetime
  total_energy_start :: real
  session_energy :: real

text \<open>
  class ChargePoint: the simulator it drives, the active transaction
  (\<^verbatim>\<open>self.transaction_id\<close>, the field \<open>cp_transaction_id\<close> here) and the one remembered
  session. The constructor marks the protocol link as connected.
\<close>

record ChargePoint =
  twc :: TWCSimulator
  cp_transaction_id :: "int option"
  last_session :: "ChargingSession option"

definition ChargePoint_init :: "datetime \<Rightarrow> TWCSimulator \<Rightarrow> ChargePoint" where
  "ChargePoint_init now t =
     \<lparr> twc = set_ocpp_connected True now t, cp_transaction_id = None, last_session = None \<rparr>"

text \<open>
  \<^verbatim>\<open>on_status_notification\<close>: \<open>now\<close> is the clock read inside \<^verbatim>\<open>set_error\<close>, \<open>now'\<close> the
  one read inside \<^verbatim>\<open>set_vehicle_connected\<close>. The reply is a constant payload.
\<close>

definition on_status_notification ::
  "int \<Rightarrow> string \<Rightarrow> string \<Rightarrow> datetime \<Rightarrow> datetime \<Rightarrow> ChargePoint \<Rightarrow> ChargePoint" where
  "on_status_notification connector_id error_code status now now' cp =
     (if error_code \<noteq> ''NoError'' then cp\<lparr> twc := set_error True now (twc cp) \<rparr>
      else
        (let t1 = set_error False now (twc cp) in
         if status = ''Charging'' then cp\<lparr> twc := snd (set_vehicle_connected True now' t1) \<rparr>
         else if status = ''SuspendedEVSE'' then
           (let t2 = snd (set_vehicle_connected True now' t1) in
            cp\<lparr> twc := t2\<lparr> vitals := (vitals t2)\<lparr> evse_state := 2, contactor_closed := False \<rparr> \<rparr> \<rparr>)
         else if status = ''SuspendedEV'' then
           (let t2 = snd (set_vehicle_connected True now' t1) in
            cp\<lparr> twc := t2\<lparr> vitals := (vitals t2)\<lparr> evse_state := 2, contactor_closed := False \<rparr> \<rparr> \<rparr>)
         else cp\<lparr> twc := snd (set_vehicle_connected False now' t1) \<rparr>))"

text \<open>
  \<^verbatim>\<open>on_start_transaction\<close> returns the transaction id of its reply and the new state.
  \<open>ts\<close> is what \<^verbatim>\<open>datetime.fromisoformat(timestamp)\<close> gives; a dataclass instance is
  always true, so \<^verbatim>\<open>self.last_session and ...\<close> tests for None.
\<close>

definition on_start_transaction ::
  "int \<Rightarrow> string \<Rightarrow> int \<Rightarrow> iso_parse \<Rightarrow> datetime \<Rightarrow> ChargePoint \<Rightarrow> int \<times> ChargePoint" where
  "on_start_transaction connector_id tag mstart ts now cp =
     (let timestamp_dt = (case ts of Malformed \<Rightarrow> now | Naive t \<Rightarrow> t | Aware t \<Rightarrow> t);
          tid = int_seconds timestamp_dt;
          total_start = total_energy_wh (vitals (twc cp));
          energy = (case last_session cp of
                      None \<Rightarrow> 0
                    | Some ls \<Rightarrow> if id_tag ls = tag then session_energy ls else 0)
      in (tid, cp\<lparr> cp_transaction_id := Some tid,
                    last_session := Some \<lparr> id_tag = tag, transaction_id = tid,
                                           meter_start = mstart, start_time = timestamp_dt,
                                           total_energy_start = total_start,
                                           session_energy = energy \<rparr> \<rparr>))"

definition on_stop_transaction :: "int \<Rightarrow> string \<Rightarrow> int \<Rightarrow> ChargePoint \<Rightarrow> ChargePoint" where
  "on_stop_transaction meter_stop timestamp_str tid cp = cp\<lparr> cp_transaction_id := None \<rparr>"

text \<open>
  One entry of \<^verbatim>\<open>sampled_value\<close>, as the processing loop reads it: \<open>measurand\<close> and
  \<open>phase\<close> are \<^verbatim>\<open>sv.get('measurand', '')\<close> and \<^verbatim>\<open>sv.get('phase', '')\<close>; \<open>sv_value\<close> is
  \<^verbatim>\<open>float(sv.get('value', '0'))\<close>, None when \<^verbatim>\<open>float\<close> raises ValueError. The unit is
  only logged.
\<close>

record SampledValue =
  measurand :: string
  sv_value :: "real option"
  phase :: string

text \<open>
  One entry of \<^verbatim>\<open>meter_value\<close>: \<^verbatim>\<open>reading.get('sampled_value', [])\<close> and
  \<^verbatim>\<open>reading.get('timestamp')\<close>, the latter as \<open>session_time\<close> reads it.
\<close>

record Reading =
  sampled_value :: "SampledValue list"
  timestamp :: "iso_parse option"

text \<open>
  The local variables of the loop body of \<^verbatim>\<open>on_meter_values\<close>, with their initial
  values (lines 155 to 165). The local \<^verbatim>\<open>session_energy\<close> is \<open>session_energy_local\<close>.
\<close>

record MeterLocals =
  currents :: "(string \<times> real) list"
  voltages :: "(string \<times> real) list"
  powers :: "(string \<times> real) list"
  frequency :: real
  session_energy_local :: real
  total_energy :: real
  temperature :: real
  current_offered :: real
  power_offered :: real
  interval_energy_reported :: bool

definition MeterLocals_init :: MeterLocals where
  "MeterLocals_init =
     \<lparr> currents = [(''L1'', 0), (''L2'', 0), (''L3'', 0), (''N'', 0)],
       voltages = [(''L1'', 0), (''L2'', 0), (''L3'', 0), (''N'', 0)],
       powers = [(''L1'', 0), (''L2'', 0), (''L3'', 0)],
       frequency = 50, session_energy_local = 0, total_energy = 0, temperature = 20,
       current_offered = 0, power_offered = 0, interval_energy_reported = False \<rparr>"

text \<open>The body of the loop "Process values" (lines 168 to 191) for one entry.\<close>

definition process_value :: "SampledValue \<Rightarrow> MeterLocals \<Rightarrow> error + MeterLocals" where
  "process_value sv a =
     (case sv_value sv of
        None \<Rightarrow> Inl ValueError
      | Some v \<Rightarrow>
          Inr (if measurand sv = ''Current.Import'' \<and> phase sv \<noteq> [] then
                 a\<lparr> currents := AList.update (phase sv) v (currents a) \<rparr>
               else if measurand sv = ''Current.Offered'' then a\<lparr> current_offered := v \<rparr>
               else if measurand sv = ''Voltage'' \<and> phase sv \<noteq> [] then
                 a\<lparr> voltages := AList.update (phase sv) v (voltages a) \<rparr>
               else if measurand sv = ''Power.Active.Import'' \<and> phase sv \<noteq> [] then
                 a\<lparr> powers := AList.update (phase sv) v (powers a) \<rparr>
               else if measurand sv = ''Power.Offered'' then a\<lparr> power_offered := v \<rparr>
               else if measurand sv = ''Frequency'' then a\<lparr> frequency := v \<rparr>
               else if measurand sv = ''Energy.Active.Import.Register'' then a\<lparr> total_energy := v \<rparr>
               else if measurand sv = ''Energy.Active.Import.Interval'' then
                 a\<lparr> session_energy_local := v, interval_energy_reported := True \<rparr>
               else if measurand sv = ''Temperature'' then a\<lparr> temperature := v \<rparr>
               else a))"

fun process_values :: "SampledValue list \<Rightarrow> MeterLocals \<Rightarrow> error + MeterLocals" where
  "process_values [] a = Inr a"
| "process_values (sv # svs) a =
     (case process_value sv a of Inl e \<Rightarrow> Inl e | Inr a' \<Rightarrow> process_values svs a')"

text \<open>
  Lines 200 to 204: the session energy is derived from the cumulative counter only when no
  interval energy was reported and a session is remembered.
\<close>

definition derive_session_energy :: "MeterLocals \<Rightarrow> ChargePoint \<Rightarrow> ChargePoint" where
  "derive_session_energy a cp =
     (case last_session cp of
        None \<Rightarrow> cp
      | Some ls \<Rightarrow>
          if \<not> interval_energy_reported a
          then cp\<lparr> last_session :=
                      Some (ls\<lparr> session_energy := max 0 (total_energy a - total_energy_start ls) \<rparr>) \<rparr>
          else cp)"

text \<open>
  The body of \<^verbatim>\<open>for reading in meter_value\<close>: the exception that leaves it, if any, and
  the state it leaves.
\<close>

definition process_reading :: "datetime \<Rightarrow> Reading \<Rightarrow> ChargePoint \<Rightarrow> error option \<times> ChargePoint" where
  "process_reading now r cp =
     (case process_values (sampled_value r) MeterLocals_init of
        Inl e \<Rightarrow> (Some e, cp)
      | Inr a \<Rightarrow>
          (let cp1 = derive_session_energy a cp;
               res = update_from_client (sum_list (map snd (powers a))) (currents a) (voltages a)
                       (frequency a)
                       (case last_session cp1 of None \<Rightarrow> 0 | Some ls \<Rightarrow> session_energy ls)
                       (total_energy a) (temperature a) (timestamp r) now (twc cp1)
           in (case fst res of Inl e \<Rightarrow> Some e | Inr b \<Rightarrow> None, cp1\<lparr> twc := snd res \<rparr>)))"

text \<open>
  The loop over the readings stops at the first exception, which the handler catches and
  logs. \<open>clock i\<close> is the clock read while reading number \<open>i\<close> is processed.
\<close>

fun process_readings :: "(nat \<Rightarrow> datetime) \<Rightarrow> nat \<Rightarrow> Reading list \<Rightarrow> ChargePoint \<Rightarrow> error option \<times> ChargePoint" where
  "process_readings clock i [] cp = (None, cp)"
| "process_readings clock i (r # rs) cp =
     (case process_reading (clock i) r cp of
        (Some e, cp') \<Rightarrow> (Some e, cp')
      | (None, cp') \<Rightarrow> process_readings clock (Suc i) rs cp')"

definition on_meter_values :: "int \<Rightarrow> Reading list \<Rightarrow> (nat \<Rightarrow> datetime) \<Rightarrow> ChargePoint \<Rightarrow> ChargePoint" where
  "on_meter_values connector_id meter_value clock cp =
     (if meter_value = [] then cp else snd (process_readings clock 0 meter_value cp))"

section \<open>Event sequences\<close>

text \<open>
  The operations of the state machine as called on the bridge's simulator, and the
  handlers of the bridge, as events; a run applies a list of them in order.
\<close>

datatype event =
    SetEnabled bool datetime
  | SetVehicleConnected bool datetime
  | SetError bool datetime
  | SetOcppConnected bool datetime
  | StatusNotification int string string datetime datetime
  | StartTransaction int string int iso_parse datetime
  | StopTransaction int string int
  | MeterValues int "Reading list" "nat \<Rightarrow> datetime"

fun apply_event :: "event \<Rightarrow> ChargePoint \<Rightarrow> ChargePoint" where
  "apply_event (SetEnabled b now) cp = cp\<lparr> twc := snd (set_enabled b now (twc cp)) \<rparr>"
| "apply_event (SetVehicleConnected b now) cp = cp\<lparr> twc := snd (set_vehicle_connected b now (twc cp)) \<rparr>"
| "apply_event (SetError b now) cp = cp\<lparr> twc := set_error b now (twc cp) \<rparr>"
| "apply_event (SetOcppConnected b now) cp = cp\<lparr> twc := set_ocpp_connected b now (twc cp) \<rparr>"
| "apply_event (StatusNotification c e st now now') cp = on_status_notification c e st now now' cp"
| "apply_event (StartTransaction c tag m ts now) cp = snd (on_start_transaction c tag m ts now cp)"
| "apply_event (StopTransaction m ts tid) cp = on_stop_transaction m ts tid cp"
| "apply_event (MeterValues c mv clock) cp = on_meter_values c mv clock cp"

fun run_events :: "event list \<Rightarrow> ChargePoint \<Rightarrow> ChargePoint" where
  "run_events [] cp = cp"
| "run_events (e # es) cp = run_events es (apply_event e cp)"

section \<open>The contactor invariant\<close>

text \<open>
  The property every operation preserves: a closed contactor comes with the state
  charging (3) and a connected vehicle.
\<close>

definition contactor_inv :: "TWCSimulator \<Rightarrow> bool" where
  "contactor_inv s =
     (if contactor_closed (vitals s)
      then evse_state (vitals s) = 3 \<and> vehicle_connected (vitals s) else True)"

section \<open>Derived session energy\<close>


section \<open>Scenario states\<close>


definition started_cp :: ChargePoint where
  "started_cp =
     snd (on_start_transaction 1 ''TEST'' 0 (Aware 100000000) 0
            (ChargePoint_init 0 (TWCSimulator_init 0)))"

text \<open>
  A reading that reports only the cumulative energy register, one that reports the
  register and an interval energy, and the bridge after a first reading of 100 Wh and a
  start-transaction for the tag TEST, so that the session starts at a total of 100.
\<close>

definition register_reading :: "real \<Rightarrow> Reading" where
  "register_reading v =
     \<lparr> sampled_value = [\<lparr> measurand = ''Energy.Active.Import.Register'', sv_value = Some v,
                           phase = [] \<rparr>],
       timestamp = None \<rparr>"

definition interval_reading :: "real \<Rightarrow> real \<Rightarrow> Reading" where
  "interval_reading tot itv =
     \<lparr> sampled_value = [\<lparr> measurand = ''Energy.Active.Import.Register'', sv_value = Some tot,
                           phase = [] \<rparr>,
                         \<lparr> measurand = ''Energy.Active.Import.Interval'', sv_value = Some itv,
                           phase = [] \<rparr>],
       timestamp = None \<rparr>"


text \<open>
  The spec's restart scenario from \<open>started_cp\<close>: one meter-values event with the reading
  \<open>r\<close>, the stop-transaction of transaction 100, then a start-transaction for \<open>tag\<close>.
\<close>

definition restarted_after :: "Reading \<Rightarrow> string \<Rightarrow> ChargePoint" where
  "restarted_after r tag =
     snd (on_start_transaction 1 tag 0 (Aware 200000000) 0
            (on_stop_transaction 50 ''1970-01-01T00:03:00+00:00'' 100
               (on_meter_values 1 [r] (\<lambda>i. 0) started_cp)))"




section \<open>Theorems\<close>

subsection \<open>What \<^verbatim>\<open>update_from_client\<close> writes and what it leaves\<close>

lemma update_from_client_currents:
  "vehicle_current_a (vitals (snd (update_from_client p cur vol f se te temp ts now s)))
     = sum_list (filter (\<lambda>c. 0 < c) [dict_get cur ''L1'' 0, dict_get cur ''L2'' 0, dict_get cur ''L3'' 0])
   \<and> currentA_a (vitals (snd (update_from_client p cur vol f se te temp ts now s))) = dict_get cur ''L1'' 0
   \<and> currentB_a (vitals (snd (update_from_client p cur vol f se te temp ts now s))) = dict_get cur ''L2'' 0
   \<and> currentC_a (vitals (snd (update_from_client p cur vol f se te temp ts now s))) = dict_get cur ''L3'' 0"
  unfolding update_from_client_def Let_def
  by (cases "session_time (charging_start_time s) ts now (session_s (vitals s))") simp_all

lemma update_from_client_frame:
  "contactor_closed (vitals (snd (update_from_client p cur vol f se te temp ts now s))) = contactor_closed (vitals s)
   \<and> evse_state (vitals (snd (update_from_client p cur vol f se te temp ts now s))) = evse_state (vitals s)
   \<and> vehicle_connected (vitals (snd (update_from_client p cur vol f se te temp ts now s))) = vehicle_connected (vitals s)
   \<and> charging_start_time (snd (update_from_client p cur vol f se te temp ts now s)) = charging_start_time s"
  unfolding update_from_client_def Let_def
  by (cases "session_time (charging_start_time s) ts now (session_s (vitals s))") simp_all

lemma update_from_client_energy:
  "session_energy_wh (vitals (snd (update_from_client p cur vol f se te temp ts now s))) = se
   \<and> total_energy_wh (vitals (snd (update_from_client p cur vol f se te temp ts now s))) = te"
  unfolding update_from_client_def Let_def
  by (cases "session_time (charging_start_time s) ts now (session_s (vitals s))") simp_all


subsection \<open>The operations preserve the contactor invariant\<close>

lemma set_enabled_inv: "contactor_inv s \<Longrightarrow> contactor_inv (snd (set_enabled b now s))"
  by (simp add: set_enabled_def contactor_inv_def split: if_splits)

lemma set_vehicle_connected_inv:
  "contactor_inv s \<Longrightarrow> contactor_inv (snd (set_vehicle_connected b now s))"
  by (cases b; cases "evse_state (vitals s) = 2")
     (simp_all add: set_vehicle_connected_def contactor_inv_def Let_def)

lemma set_error_inv: "contactor_inv s \<Longrightarrow> contactor_inv (set_error b now s)"
  by (simp add: set_error_def set_enabled_def contactor_inv_def split: if_splits)

lemma set_ocpp_connected_inv: "contactor_inv s \<Longrightarrow> contactor_inv (set_ocpp_connected b now s)"
  by (cases b) (simp_all add: set_ocpp_connected_def contactor_inv_def split: if_splits)

lemma update_from_client_inv:
  "contactor_inv s \<Longrightarrow> contactor_inv (snd (update_from_client p cur vol f se te temp ts now s))"
  by (simp add: contactor_inv_def update_from_client_frame)

subsection \<open>Claims about the state machine\<close>

text \<open>
  C7. While \<open>evse_state = 4\<close> (error), \<^verbatim>\<open>set_enabled(True)\<close> returns False and leaves the
  whole simulator (snapshot and charge-start time) as it was; in every other state
  \<^verbatim>\<open>set_enabled\<close> returns True, and disabling returns True in any state.
\<close>

theorem set_enabled_in_error:
  "(evse_state (vitals s) = 4 \<longrightarrow> set_enabled True now s = (False, s))
   \<and> (evse_state (vitals s) \<noteq> 4 \<longrightarrow> fst (set_enabled b now s) = True)
   \<and> fst (set_enabled False now s) = True"
  by (simp add: set_enabled_def)

theorem set_enabled_in_error_witness:
  "evse_state (vitals (set_error True 0 (TWCSimulator_init 0))) = 4
   \<and> set_enabled True 5 (set_error True 0 (TWCSimulator_init 0))
       = (False, set_error True 0 (TWCSimulator_init 0))
   \<and> evse_state (vitals (TWCSimulator_init 0)) \<noteq> 4
   \<and> fst (set_enabled True 5 (TWCSimulator_init 0)) = True"
  using set_enabled_in_error [of "set_error True 0 (TWCSimulator_init 0)" 5 True]
        set_enabled_in_error [of "TWCSimulator_init 0" 5 True]
  by (simp add: set_error_def TWCSimulator_init_def Vitals_init_def)

text \<open>
  C8. \<^verbatim>\<open>set_vehicle_connected(True)\<close> is idempotent: a second call, at whatever time,
  returns the same and leaves the simulator (snapshot and charge-start time) as the
  first call left it.
\<close>

theorem set_vehicle_connected_true_idempotent:
  "set_vehicle_connected True now2 (snd (set_vehicle_connected True now1 s))
     = set_vehicle_connected True now1 s"
  by (cases "evse_state (vitals s) = 2") (simp_all add: set_vehicle_connected_def)

text \<open>
  C10. After \<^verbatim>\<open>update_from_client\<close>, whether it returns or raises, \<open>vehicle_current_a\<close> is
  the sum of the positive ones among the currents of phases L1, L2 and L3, as passed and
  as stored; the neutral current and currents that are zero or negative add nothing.
\<close>

theorem vehicle_current_sums_positive_phases:
  "vehicle_current_a (vitals (snd (update_from_client p cur vol f se te temp ts now s)))
     = max 0 (dict_get cur ''L1'' 0) + max 0 (dict_get cur ''L2'' 0) + max 0 (dict_get cur ''L3'' 0)
   \<and> vehicle_current_a (vitals (snd (update_from_client p cur vol f se te temp ts now s)))
     = max 0 (currentA_a (vitals (snd (update_from_client p cur vol f se te temp ts now s))))
       + max 0 (currentB_a (vitals (snd (update_from_client p cur vol f se te temp ts now s))))
       + max 0 (currentC_a (vitals (snd (update_from_client p cur vol f se te temp ts now s))))"
  by (simp add: update_from_client_currents max_def)


text \<open>
  C5. From any state of the simulator, \<^verbatim>\<open>set_ocpp_connected(False)\<close> leaves
  \<open>evse_state = 0\<close> (unknown), the contactor open and no charge-start time.
\<close>

theorem set_ocpp_connected_false_forces_unknown:
  "evse_state (vitals (set_ocpp_connected False now s)) = 0
   \<and> contactor_closed (vitals (set_ocpp_connected False now s)) = False
   \<and> charging_start_time (set_ocpp_connected False now s) = None
   \<and> ocpp_connected (set_ocpp_connected False now s) = False"
  by (simp add: set_ocpp_connected_def)

subsection \<open>The contactor invariant holds in every reachable state\<close>

lemma derive_session_energy_twc: "twc (derive_session_energy a cp) = twc cp"
  by (simp add: derive_session_energy_def split: option.splits)

lemma process_reading_inv:
  "contactor_inv (twc cp) \<Longrightarrow> contactor_inv (twc (snd (process_reading now r cp)))"
  unfolding process_reading_def Let_def
  by (cases "process_values (sampled_value r) MeterLocals_init")
     (simp_all add: derive_session_energy_twc update_from_client_inv)

lemma process_readings_inv:
  "contactor_inv (twc cp) \<Longrightarrow> contactor_inv (twc (snd (process_readings clock i rs cp)))"
proof (induction rs arbitrary: i cp)
  case Nil
  then show ?case by simp
next
  case (Cons r rs)
  obtain e cp' where pr: "process_reading (clock i) r cp = (e, cp')"
    by (cases "process_reading (clock i) r cp")
  with Cons.prems process_reading_inv [of cp "clock i" r]
  have inv': "contactor_inv (twc cp')" by simp
  show ?case
  proof (cases e)
    case None
    with pr Cons.IH [OF inv'] show ?thesis by simp
  next
    case (Some err)
    with pr inv' show ?thesis by simp
  qed
qed

lemma on_meter_values_inv:
  "contactor_inv (twc cp) \<Longrightarrow> contactor_inv (twc (on_meter_values c mv clock cp))"
  by (simp add: on_meter_values_def process_readings_inv)

lemma on_status_notification_inv:
  assumes "contactor_inv (twc cp)"
  shows "contactor_inv (twc (on_status_notification c e st now now' cp))"
proof -
  have a: "contactor_inv (set_error True now (twc cp))"
    using assms by (rule set_error_inv)
  have b: "contactor_inv (set_error False now (twc cp))"
    using assms by (rule set_error_inv)
  have c: "contactor_inv (snd (set_vehicle_connected x now' (set_error False now (twc cp))))" for x
    using b by (rule set_vehicle_connected_inv)
  have d: "contactor_inv (t\<lparr> vitals := (vitals t)\<lparr> evse_state := 2, contactor_closed := False \<rparr> \<rparr>)" for t
    by (simp add: contactor_inv_def)
  show ?thesis
    unfolding on_status_notification_def Let_def using a c d by simp
qed

lemma on_start_transaction_twc: "twc (snd (on_start_transaction c tag m ts now cp)) = twc cp"
  by (simp add: on_start_transaction_def Let_def)

lemma on_stop_transaction_twc: "twc (on_stop_transaction m ts tid cp) = twc cp"
  by (simp add: on_stop_transaction_def)

lemma apply_event_inv: "contactor_inv (twc cp) \<Longrightarrow> contactor_inv (twc (apply_event e cp))"
  by (cases e)
     (simp_all add: set_enabled_inv set_vehicle_connected_inv set_error_inv
        set_ocpp_connected_inv on_status_notification_inv on_start_transaction_twc
        on_stop_transaction_twc on_meter_values_inv)

lemma run_events_inv: "contactor_inv (twc cp) \<Longrightarrow> contactor_inv (twc (run_events es cp))"
  by (induction es arbitrary: cp) (simp_all add: apply_event_inv)

lemma ChargePoint_init_inv: "contactor_inv (twc (ChargePoint_init now (TWCSimulator_init now0)))"
  by (simp add: ChargePoint_init_def TWCSimulator_init_def Vitals_init_def
        set_ocpp_connected_def contactor_inv_def)

text \<open>
  C3. In every state reached from the initial simulator and bridge by any sequence of
  \<^verbatim>\<open>set_enabled\<close>, \<^verbatim>\<open>set_vehicle_connected\<close>, \<^verbatim>\<open>set_error\<close>, \<^verbatim>\<open>set_ocpp_connected\<close> and
  the bridge's handlers (status notification, start and stop transaction, meter values),
  a closed contactor implies \<open>evse_state = 3\<close> (charging).
\<close>

theorem contactor_closed_implies_charging:
  "contactor_closed (vitals (twc (run_events es (ChargePoint_init now (TWCSimulator_init now0)))))
   \<longrightarrow> evse_state (vitals (twc (run_events es (ChargePoint_init now (TWCSimulator_init now0))))) = 3"
  using run_events_inv [OF ChargePoint_init_inv, of es now now0]
  by (simp add: contactor_inv_def split: if_splits)

theorem contactor_closed_implies_charging_witness:
  "contactor_closed (vitals (twc (run_events [StatusNotification 1 ''NoError'' ''Charging'' 1 2]
      (ChargePoint_init 0 (TWCSimulator_init 0)))))
   \<and> evse_state (vitals (twc (run_events [StatusNotification 1 ''NoError'' ''Charging'' 1 2]
      (ChargePoint_init 0 (TWCSimulator_init 0))))) = 3"
  using contactor_closed_implies_charging
          [of "[StatusNotification 1 ''NoError'' ''Charging'' 1 2]" 0 0]
  by (simp add: on_status_notification_def set_error_def set_enabled_def
        set_vehicle_connected_def ChargePoint_init_def TWCSimulator_init_def Vitals_init_def
        set_ocpp_connected_def)

subsection \<open>Session time after a suspended status\<close>




lemma on_meter_values_single:
  "on_meter_values c [r] clock cp = snd (process_reading (clock 0) r cp)"
  by (cases "process_reading (clock 0) r cp"; cases "fst (process_reading (clock 0) r cp)")
     (simp_all add: on_meter_values_def)




subsection \<open>Stop-transaction\<close>

text \<open>
  C4, as the code has it. \<^verbatim>\<open>on_stop_transaction\<close> never compares its \<^verbatim>\<open>transaction_id\<close>
  argument with anything: whatever the id, the active transaction is cleared, and the
  remembered session and the simulator stay as they were (the session is retained).
\<close>

theorem on_stop_transaction_clears_any_id:
  "cp_transaction_id (on_stop_transaction m ts tid cp) = None
   \<and> last_session (on_stop_transaction m ts tid cp) = last_session cp
   \<and> twc (on_stop_transaction m ts tid cp) = twc cp"
  by (simp add: on_stop_transaction_def)




text \<open>
  C4, as stated, fails: with transaction 100 active, a stop-transaction for the id 999
  clears the active transaction, so the call is no no-op.
\<close>

theorem stop_with_other_id_clears_transaction:
  "cp_transaction_id started_cp = Some 100
   \<and> cp_transaction_id (on_stop_transaction 0 ''2026-11-03T00:00:00+00:00'' 999 started_cp) = None
   \<and> on_stop_transaction 0 ''2026-11-03T00:00:00+00:00'' 999 started_cp \<noteq> started_cp"
proof -
  have a: "cp_transaction_id started_cp = Some 100"
    by (simp add: started_cp_def on_start_transaction_def int_seconds_def)
  have b: "cp_transaction_id (on_stop_transaction 0 ''2026-11-03T00:00:00+00:00'' 999 started_cp) = None"
    by (simp add: on_stop_transaction_def)
  from a b have "on_stop_transaction 0 ''2026-11-03T00:00:00+00:00'' 999 started_cp \<noteq> started_cp"
    by auto
  with a b show ?thesis by simp
qed

subsection \<open>Session energy derived from the cumulative counter\<close>

lemma process_value_interval:
  "process_value sv a = Inr a' \<Longrightarrow>
   interval_energy_reported a'
     = (interval_energy_reported a \<or> measurand sv = ''Energy.Active.Import.Interval'')"
  by (cases "sv_value sv") (auto simp add: process_value_def split: if_splits)

lemma process_values_interval:
  "process_values svs a = Inr a' \<Longrightarrow>
   interval_energy_reported a'
     = (interval_energy_reported a \<or> (\<exists>sv\<in>set svs. measurand sv = ''Energy.Active.Import.Interval''))"
proof (induction svs arbitrary: a)
  case Nil
  then show ?case by simp
next
  case (Cons sv svs)
  then obtain a1 where a1: "process_value sv a = Inr a1" "process_values svs a1 = Inr a'"
    by (cases "process_value sv a") auto
  from Cons.IH [OF a1(2)] process_value_interval [OF a1(1)] show ?case by auto
qed





lemma process_values_register:
  "process_values (sampled_value (register_reading v)) MeterLocals_init
     = Inr (MeterLocals_init\<lparr> total_energy := v \<rparr>)"
  by (simp add: register_reading_def process_value_def)





subsection \<open>Reported interval energy and session continuity\<close>

lemma started_cp_session:
  "last_session started_cp
     = Some \<lparr> id_tag = ''TEST'', transaction_id = 100, meter_start = 0, start_time = 100000000,
              total_energy_start = 0, session_energy = 0 \<rparr>"
  by (simp add: started_cp_def on_start_transaction_def Let_def ChargePoint_init_def
        set_ocpp_connected_def TWCSimulator_init_def Vitals_init_def int_seconds_def)

lemma process_values_interval_reading:
  "process_values (sampled_value (interval_reading tot itv)) MeterLocals_init
     = Inr (MeterLocals_init\<lparr> total_energy := tot, session_energy_local := itv,
                               interval_energy_reported := True \<rparr>)"
  by (simp add: interval_reading_def process_value_def)

lemma interval_reported_leaves_session:
  assumes pv: "process_values (sampled_value r) MeterLocals_init = Inr a"
    and itv: "\<exists>sv\<in>set (sampled_value r). measurand sv = ''Energy.Active.Import.Interval''"
  shows "last_session (snd (process_reading now r cp)) = last_session cp
     \<and> session_energy_wh (vitals (twc (snd (process_reading now r cp))))
         = (case last_session cp of None \<Rightarrow> 0 | Some ls \<Rightarrow> session_energy ls)"
proof -
  have flag: "interval_energy_reported a"
    using process_values_interval [OF pv] itv by simp
  then have d: "derive_session_energy a cp = cp"
    by (simp add: derive_session_energy_def split: option.splits)
  show ?thesis
    unfolding process_reading_def Let_def using pv d
    by (simp add: update_from_client_energy)
qed

lemma register_reading_session:
  "last_session cp = Some ls \<Longrightarrow>
   last_session (on_meter_values c [register_reading v] clock cp)
     = Some (ls\<lparr> session_energy := max 0 (v - total_energy_start ls) \<rparr>)"
proof -
  assume ls: "last_session cp = Some ls"
  have f: "interval_energy_reported MeterLocals_init = False"
    by (simp add: MeterLocals_init_def)
  from ls show ?thesis
    by (simp add: on_meter_values_single process_reading_def Let_def process_values_register
          derive_session_energy_def f)
qed

lemma interval_reading_session:
  "last_session (on_meter_values c [interval_reading tot itv] clock cp) = last_session cp
   \<and> session_energy_wh (vitals (twc (on_meter_values c [interval_reading tot itv] clock cp)))
       = (case last_session cp of None \<Rightarrow> 0 | Some ls \<Rightarrow> session_energy ls)
   \<and> total_energy_wh (vitals (twc (on_meter_values c [interval_reading tot itv] clock cp))) = tot"
proof -
  have itv: "\<exists>sv\<in>set (sampled_value (interval_reading tot itv)).
               measurand sv = ''Energy.Active.Import.Interval''"
    by (simp add: interval_reading_def)
  have "total_energy_wh (vitals (twc (snd (process_reading (clock 0) (interval_reading tot itv) cp)))) = tot"
    by (simp add: process_reading_def Let_def process_values_interval_reading
          update_from_client_energy)
  with interval_reported_leaves_session [OF process_values_interval_reading itv, of "clock 0" cp]
  show ?thesis by (simp add: on_meter_values_single)
qed

text \<open>
  C1, on the code. The handler notes a reported interval energy in the local variable and
  the flag, and then only skips the derivation: the value is written neither to the session
  record nor to the snapshot, which both keep the record's old energy
  (\<open>interval_reported_leaves_session\<close>). With the session of \<open>started_cp\<close> at 0 Wh, an event
  reporting a total of 50 and an interval energy of 50 leaves the record and the snapshot's
  session energy at 0, where C1 asks for 50.
\<close>

theorem interval_energy_not_stored:
  "map_option session_energy
       (last_session (on_meter_values 1 [interval_reading 50 50] (\<lambda>i. 0) started_cp)) = Some 0
   \<and> session_energy_wh
       (vitals (twc (on_meter_values 1 [interval_reading 50 50] (\<lambda>i. 0) started_cp))) = 0
   \<and> total_energy_wh
       (vitals (twc (on_meter_values 1 [interval_reading 50 50] (\<lambda>i. 0) started_cp))) = 50"
  using interval_reading_session [of 1 50 50 "\<lambda>i. 0" started_cp] started_cp_session
  by simp

text \<open>
  Session continuity at start-transaction, the general rule of C2, holds on the code: a
  start-transaction whose tag is the remembered session's starts the new session at the
  remembered session's energy; with another tag, or with no remembered session, it starts
  at zero. The witness restarts after an energy derived from the counter (50 carried over).
\<close>

theorem start_transaction_carries_session_energy:
  "(last_session cp = Some ls \<and> id_tag ls = tag \<longrightarrow>
      map_option session_energy (last_session (snd (on_start_transaction c tag m ts now cp)))
        = Some (session_energy ls))
   \<and> (last_session cp = Some ls \<and> id_tag ls \<noteq> tag \<longrightarrow>
      map_option session_energy (last_session (snd (on_start_transaction c tag m ts now cp)))
        = Some 0)
   \<and> (last_session cp = None \<longrightarrow>
      map_option session_energy (last_session (snd (on_start_transaction c tag m ts now cp)))
        = Some 0)"
  by (simp add: on_start_transaction_def Let_def)

lemma stopped_session:
  "last_session (on_stop_transaction 50 ''1970-01-01T00:03:00+00:00'' 100
       (on_meter_values 1 [register_reading 50] (\<lambda>i. 0) started_cp))
     = Some \<lparr> id_tag = ''TEST'', transaction_id = 100, meter_start = 0, start_time = 100000000,
              total_energy_start = 0, session_energy = 50 \<rparr>"
  by (simp add: on_stop_transaction_def register_reading_session [OF started_cp_session])

theorem start_transaction_carries_session_energy_witness:
  "map_option session_energy (last_session (restarted_after (register_reading 50) ''TEST''))
     = Some 50
   \<and> map_option session_energy (last_session (restarted_after (register_reading 50) ''OTHER''))
     = Some 0
   \<and> last_session (ChargePoint_init 0 (TWCSimulator_init 0)) = None
   \<and> map_option session_energy (last_session (snd (on_start_transaction 1 ''TEST'' 0
        (Aware 100000000) 0 (ChargePoint_init 0 (TWCSimulator_init 0))))) = Some 0"
proof -
  have n: "last_session (ChargePoint_init 0 (TWCSimulator_init 0)) = None"
    by (simp add: ChargePoint_init_def)
  from start_transaction_carries_session_energy
         [where cp = "on_stop_transaction 50 ''1970-01-01T00:03:00+00:00'' 100
              (on_meter_values 1 [register_reading 50] (\<lambda>i. 0) started_cp)"
            and tag = "''TEST''" and c = 1 and m = 0 and ts = "Aware 200000000" and now = 0
            and ls = "\<lparr> id_tag = ''TEST'', transaction_id = 100, meter_start = 0,
                       start_time = 100000000, total_energy_start = 0, session_energy = 50 \<rparr>"]
       start_transaction_carries_session_energy
         [where cp = "on_stop_transaction 50 ''1970-01-01T00:03:00+00:00'' 100
              (on_meter_values 1 [register_reading 50] (\<lambda>i. 0) started_cp)"
            and tag = "''OTHER''" and c = 1 and m = 0 and ts = "Aware 200000000" and now = 0
            and ls = "\<lparr> id_tag = ''TEST'', transaction_id = 100, meter_start = 0,
                       start_time = 100000000, total_energy_start = 0, session_energy = 50 \<rparr>"]
       start_transaction_carries_session_energy
         [where cp = "ChargePoint_init 0 (TWCSimulator_init 0)"
            and tag = "''TEST''" and c = 1 and m = 0 and ts = "Aware 100000000" and now = 0]
       stopped_session n
  show ?thesis by (simp add: restarted_after_def)
qed

text \<open>
  C2, on the code, in the spec's scenario: after a start for TEST, a report of total 50
  with the explicit interval energy 50, and the stop, a second start for TEST begins at 0,
  not at 50. The start-transaction carries the remembered energy over as C2 says; the
  remembered energy is 0 because the interval energy never reached the session record
  (the defect of C1).
\<close>

theorem restart_after_interval_report_starts_at_zero:
  "map_option session_energy (last_session (restarted_after (interval_reading 50 50) ''TEST''))
     = Some 0
   \<and> map_option session_energy (last_session (restarted_after (interval_reading 50 50) ''TEST''))
     \<noteq> Some 50"
proof -
  have "last_session (on_stop_transaction 50 ''1970-01-01T00:03:00+00:00'' 100
          (on_meter_values 1 [interval_reading 50 50] (\<lambda>i. 0) started_cp))
        = Some \<lparr> id_tag = ''TEST'', transaction_id = 100, meter_start = 0,
                 start_time = 100000000, total_energy_start = 0, session_energy = 0 \<rparr>"
    using interval_reading_session [of 1 50 50 "\<lambda>i. 0" started_cp] started_cp_session
    by (simp add: on_stop_transaction_def)
  then show ?thesis
    by (simp add: restarted_after_def on_start_transaction_def Let_def)
qed

subsection \<open>The derived session energy and the reported total\<close>

















end
